theory Spec2Isabelle
  imports Complex_Main "HOL-Library.Extended_Nat" "HOL-Library.AList"
begin

section \<open>JavaScript values\<close>

text \<open>
  The chat client (\<^verbatim>\<open>static/index.js\<close>) handles values that come out of
  \<^verbatim>\<open>JSON.parse\<close>, out of the page's form fields and out of its own literals. A number
  is a finite value, an infinity or NaN; an array or an object carries the reference that
  identifies it (two values are the same object exactly when they have the same
  reference), and an object is the list of its own properties, the first binding of a
  name being the property's value.
\<close>

datatype jsnum = Fin real | PInf | NInf | NaN

datatype jsval =
    JUndefined
  | JNull
  | JBool bool
  | JNum jsnum
  | JStr string
  | JArr nat "jsval list"
  | JObj nat "(string \<times> jsval) list"

datatype js_error = TypeError

text \<open>\<^verbatim>\<open>v === undefined || v === null\<close>\<close>

definition nullish :: "jsval \<Rightarrow> bool" where
  "nullish v = (v = JUndefined \<or> v = JNull)"

text \<open>\<^verbatim>\<open>a ?? b\<close>\<close>

definition coalesce :: "jsval \<Rightarrow> jsval \<Rightarrow> jsval" where
  "coalesce a b = (if nullish a then b else a)"

text \<open>ToBoolean: what \<^verbatim>\<open>!v\<close>, \<^verbatim>\<open>v ? a : b\<close> and \<^verbatim>\<open>v || b\<close> test.\<close>

fun truthy :: "jsval \<Rightarrow> bool" where
  "truthy JUndefined = False"
| "truthy JNull = False"
| "truthy (JBool b) = b"
| "truthy (JNum n) = (n \<noteq> NaN \<and> n \<noteq> Fin 0)"
| "truthy (JStr s) = (s \<noteq> [])"
| "truthy (JArr a xs) = True"
| "truthy (JObj a fs) = True"

text \<open>\<^verbatim>\<open>a || b\<close>\<close>

definition js_or :: "jsval \<Rightarrow> jsval \<Rightarrow> jsval" where
  "js_or a b = (if truthy a then a else b)"

text \<open>\<^verbatim>\<open>typeof v === 'object'\<close> (null included) and \<^verbatim>\<open>typeof v === 'string'\<close>\<close>

fun typeof_object :: "jsval \<Rightarrow> bool" where
  "typeof_object JNull = True"
| "typeof_object (JArr a xs) = True"
| "typeof_object (JObj a fs) = True"
| "typeof_object v = False"

fun typeof_string :: "jsval \<Rightarrow> bool" where
  "typeof_string (JStr s) = True"
| "typeof_string v = False"

text \<open>
  \<^verbatim>\<open>v?.k\<close>: undefined when \<open>v\<close> is null or undefined, the property otherwise. The
  program reads only the names payload, data, message, messages, id, messageId, pk, sk,
  senderId, userName, username, user, author, content, text, body, createdAt, timestamp,
  token, wsUrl, websocketUrl and error; none of them is a property of a string, a number,
  a boolean or an array, or of \<^verbatim>\<open>Object.prototype\<close>, so only an object's own properties
  answer. A plain \<^verbatim>\<open>obj.k\<close> is applied by the program to objects and arrays only, where
  it is the same read.
\<close>

fun js_get :: "jsval \<Rightarrow> string \<Rightarrow> jsval" where
  "js_get (JObj a fs) k = (case map_of fs k of Some v \<Rightarrow> v | None \<Rightarrow> JUndefined)"
| "js_get v k = JUndefined"

text \<open>
  The same value allocated elsewhere: every reference in it moved by \<open>k\<close>.
\<close>

fun shift_refs :: "nat \<Rightarrow> jsval \<Rightarrow> jsval" where
  "shift_refs k (JArr a xs) = JArr (a + k) (map (shift_refs k) xs)"
| "shift_refs k (JObj a fs) = JObj (a + k) (map (\<lambda>p. (fst p, shift_refs k (snd p))) fs)"
| "shift_refs k v = v"

subsection \<open>The canonical message\<close>

text \<open>
  The canonical message that \<^verbatim>\<open>normalizeMessage\<close> builds: the object
  \<^verbatim>\<open>{ id, userName, message, timestamp }\<close>.
\<close>

record msg =
  id_field :: jsval
  userName :: jsval
  message :: jsval
  timestamp :: jsval

subsection \<open>Conversions\<close>

text \<open>
  What the page's engine supplies and the source does not fix: the decimal form of a
  finite number, the parsers of numbers, dates and JSON (for JSON the parsed value, up to
  where its objects are allocated), whether a URL or a socket can be constructed, and the
  order in which \<^verbatim>\<open>Array.prototype.sort\<close> leaves a list of messages on which the
  comparator is not consistent.
\<close>

record runtime =
  num_to_string :: "real \<Rightarrow> string"
  string_to_num :: "string \<Rightarrow> jsnum"
  date_parse :: "string \<Rightarrow> jsnum"
  json_parse :: "string \<Rightarrow> jsval option"
  url_valid :: "jsval \<Rightarrow> bool"
  socket_constructible :: "jsval \<Rightarrow> bool"
  engine_sort :: "msg list \<Rightarrow> msg list"

text \<open>
  ToPrimitive on an object calls its \<^verbatim>\<open>toString\<close> (and \<^verbatim>\<open>valueOf\<close>, which never
  yields a primitive here). An object out of \<^verbatim>\<open>JSON.parse\<close> inherits a working
  \<^verbatim>\<open>toString\<close> unless it has an own property of that name, whose value cannot be
  called: then the conversion throws TypeError. An array is converted by \<^verbatim>\<open>join\<close>,
  which converts every element that is not null or undefined.
\<close>

fun convertible :: "jsval \<Rightarrow> bool" where
  "convertible (JObj a fs) = (''toString'' \<notin> fst ` set fs)"
| "convertible (JArr a xs) = list_all (\<lambda>x. nullish x \<or> convertible x) xs"
| "convertible v = True"

fun join_comma :: "string list \<Rightarrow> string" where
  "join_comma [] = []"
| "join_comma [s] = s"
| "join_comma (s # t # ss) = s @ '','' @ join_comma (t # ss)"

fun string_of :: "runtime \<Rightarrow> jsval \<Rightarrow> string" where
  "string_of rt JUndefined = ''undefined''"
| "string_of rt JNull = ''null''"
| "string_of rt (JBool b) = (if b then ''true'' else ''false'')"
| "string_of rt (JNum (Fin r)) = num_to_string rt r"
| "string_of rt (JNum PInf) = ''Infinity''"
| "string_of rt (JNum NInf) = ''-Infinity''"
| "string_of rt (JNum NaN) = ''NaN''"
| "string_of rt (JStr s) = s"
| "string_of rt (JArr a xs) =
     join_comma (map (\<lambda>x. if nullish x then [] else string_of rt x) xs)"
| "string_of rt (JObj a fs) = ''[object Object]''"

text \<open>ToString, as a template literal \<^verbatim>\<open>`${v}`\<close> and \<^verbatim>\<open>setAttribute\<close> apply it.\<close>

definition to_string :: "runtime \<Rightarrow> jsval \<Rightarrow> js_error + string" where
  "to_string rt v = (if convertible v then Inr (string_of rt v) else Inl TypeError)"

text \<open>ToPrimitive of a convertible value, and ToNumber.\<close>

fun to_primitive :: "runtime \<Rightarrow> jsval \<Rightarrow> jsval" where
  "to_primitive rt (JArr a xs) = JStr (string_of rt (JArr a xs))"
| "to_primitive rt (JObj a fs) = JStr (string_of rt (JObj a fs))"
| "to_primitive rt v = v"

fun prim_to_number :: "runtime \<Rightarrow> jsval \<Rightarrow> jsnum" where
  "prim_to_number rt JUndefined = NaN"
| "prim_to_number rt JNull = Fin 0"
| "prim_to_number rt (JBool b) = Fin (if b then 1 else 0)"
| "prim_to_number rt (JNum n) = n"
| "prim_to_number rt (JStr s) = string_to_num rt s"
| "prim_to_number rt v = NaN"

definition to_number :: "runtime \<Rightarrow> jsval \<Rightarrow> js_error + jsnum" where
  "to_number rt v =
     (if convertible v then Inr (prim_to_number rt (to_primitive rt v)) else Inl TypeError)"

text \<open>
  \<^verbatim>\<open>new Date(v).getTime()\<close>: a string is parsed, anything else is made a number and
  clipped to the range of time values, truncated to an integer.
\<close>

fun time_clip :: "jsnum \<Rightarrow> jsnum" where
  "time_clip (Fin r) =
     (if \<bar>r\<bar> \<le> 8640000000000000
      then Fin (of_int (if 0 \<le> r then \<lfloor>r\<rfloor> else \<lceil>r\<rceil>)) else NaN)"
| "time_clip n = NaN"

definition date_getTime :: "runtime \<Rightarrow> jsval \<Rightarrow> js_error + jsnum" where
  "date_getTime rt v =
     (if convertible v
      then Inr (case to_primitive rt v of
                  JStr s \<Rightarrow> date_parse rt s
                | p \<Rightarrow> time_clip (prim_to_number rt p))
      else Inl TypeError)"

section \<open>Message handling\<close>

text \<open>
  One call of \<^verbatim>\<open>normalizeMessage\<close> may read the clock for the synthesized id, draw
  \<^verbatim>\<open>Math.random().toString(36).slice(2)\<close>, and read the clock again for the timestamp.
  \<open>heap_base\<close> is where the engine allocates at that moment: a value parsed then gets
  its references from there on.
\<close>

record tick =
  now_id :: real
  random36 :: string
  now_ts :: real
  heap_base :: nat

text \<open>
  \<^verbatim>\<open>raw?.payload?.message ?? raw?.data?.message ?? raw?.message ?? raw?.payload ?? raw?.data ?? raw\<close>
\<close>

definition unwrap :: "jsval \<Rightarrow> jsval" where
  "unwrap raw =
     coalesce (js_get (js_get raw ''payload'') ''message'')
    (coalesce (js_get (js_get raw ''data'') ''message'')
    (coalesce (js_get raw ''message'')
    (coalesce (js_get raw ''payload'')
    (coalesce (js_get raw ''data'') raw))))"

text \<open>
  The id of the result:
  \<^verbatim>\<open>obj.id ?? obj.messageId ?? obj.pk ?? obj.sk ?? `${...}-${...}-${...}`\<close>.
\<close>

definition synthesized_id :: "runtime \<Rightarrow> tick \<Rightarrow> jsval \<Rightarrow> js_error + jsval" where
  "synthesized_id rt tk obj =
     (case to_string rt (js_or (js_get obj ''senderId'') (js_or (js_get obj ''userName'')
                        (js_or (js_get obj ''username'') (JStr ''user'')))) of
        Inl e \<Rightarrow> Inl e
      | Inr who \<Rightarrow>
          (case to_string rt (js_or (js_get obj ''createdAt'') (js_or (js_get obj ''timestamp'')
                             (JNum (Fin (now_id tk))))) of
             Inl e \<Rightarrow> Inl e
           | Inr stamp \<Rightarrow> Inr (JStr (who @ ''-'' @ stamp @ ''-'' @ random36 tk))))"

definition message_id :: "runtime \<Rightarrow> tick \<Rightarrow> jsval \<Rightarrow> js_error + jsval" where
  "message_id rt tk obj =
     (let given = coalesce (js_get obj ''id'') (coalesce (js_get obj ''messageId'')
                 (coalesce (js_get obj ''pk'') (js_get obj ''sk'')))
      in if nullish given then synthesized_id rt tk obj else Inr given)"

text \<open>
  \<^verbatim>\<open>obj.createdAt ? new Date(obj.createdAt).getTime() : (obj.timestamp ?? Date.now())\<close>
\<close>

definition message_timestamp :: "runtime \<Rightarrow> tick \<Rightarrow> jsval \<Rightarrow> js_error + jsval" where
  "message_timestamp rt tk obj =
     (if truthy (js_get obj ''createdAt'')
      then (case date_getTime rt (js_get obj ''createdAt'') of
              Inl e \<Rightarrow> Inl e
            | Inr t \<Rightarrow> Inr (JNum t))
      else Inr (coalesce (js_get obj ''timestamp'') (JNum (Fin (now_ts tk)))))"

text \<open>
  \<^verbatim>\<open>normalizeMessage\<close>: \<open>Inr None\<close> is the result \<^verbatim>\<open>null\<close>, \<open>Inl TypeError\<close> an
  exception thrown by a conversion. The object literal \<^verbatim>\<open>{ message: m }\<close> is only read
  through its properties, so its reference is immaterial.
\<close>

definition normalizeMessage :: "runtime \<Rightarrow> tick \<Rightarrow> jsval \<Rightarrow> js_error + msg option" where
  "normalizeMessage rt tk raw =
     (let m = unwrap raw in
      if \<not> truthy m \<or> (\<not> typeof_object m \<and> \<not> typeof_string m)
      then (if typeof_string raw
            then Inr (Some \<lparr> id_field = JUndefined, userName = JStr ''unknown'',
                             message = raw, timestamp = JNum (Fin (now_ts tk)) \<rparr>)
            else Inr None)
      else
        (let obj = (if typeof_string m then JObj 0 [(''message'', m)] else m) in
         case message_id rt tk obj of
           Inl e \<Rightarrow> Inl e
         | Inr i \<Rightarrow>
             (case message_timestamp rt tk obj of
                Inl e \<Rightarrow> Inl e
              | Inr t \<Rightarrow>
                  Inr (Some \<lparr> id_field = i,
                    userName = coalesce (js_get obj ''senderId'') (coalesce (js_get obj ''userName'')
                              (coalesce (js_get obj ''username'') (coalesce (js_get obj ''user'')
                              (coalesce (js_get obj ''author'') (JStr ''unknown''))))),
                    message = coalesce (js_get obj ''content'') (coalesce (js_get obj ''message'')
                             (coalesce (js_get obj ''text'') (coalesce (js_get obj ''body'')
                             (JStr [])))),
                    timestamp = t \<rparr>))))"

section \<open>State\<close>

text \<open>
  The object \<^verbatim>\<open>state\<close> of the script, followed by the parts of the page and of the
  browser that the handlers act on: the children of \<^verbatim>\<open>#messagesContainer\<close> (one
  message group per rendered message, named here by that message), the connection status
  line, the message input and the send button, the pending \<^verbatim>\<open>setTimeout\<close> calls of
  \<^verbatim>\<open>connectWebSocket\<close> with their delays, the requests issued with \<^verbatim>\<open>fetch\<close>, and the
  alerts shown. \<^verbatim>\<open>state.messages\<close> is a Map: its entries in insertion order.
  The fields \<^verbatim>\<open>isTyping\<close> and \<^verbatim>\<open>onlineUsers\<close> are never read or written.
  \<^verbatim>\<open>wsBackoffMs\<close> only ever holds 500, a doubling of it, or Infinity.
\<close>

datatype socket = WebSocket (sock_url: jsval) (sock_token: jsval) (sock_username: "string option")

datatype request =
    PostJSON (req_path: string) (req_body: "(string \<times> jsval) list") (req_bearer: jsval)
  | GetStoredMessages (req_token: jsval)

record state =
  username :: "string option"
  token :: jsval
  wsUrl :: jsval
  ws :: "socket option"
  wsBackoffMs :: enat
  wsMaxBackoffMs :: enat
  connected :: bool
  messages :: "(jsval \<times> msg) list"
  container :: "msg list"
  statusConnected :: bool
  statusText :: string
  chatShown :: bool
  messageInput :: string
  sendDisabled :: bool
  timers :: "enat list"
  requests :: "request list"
  alerts :: "string list"

definition initial_state :: state where
  "initial_state =
     \<lparr> username = None, token = JNull, wsUrl = JNull, ws = None,
       wsBackoffMs = 500, wsMaxBackoffMs = 15000, connected = False, messages = [],
       container = [], statusConnected = False, statusText = ''Disconnected'',
       chatShown = False, messageInput = [], sendDisabled = False,
       timers = [], requests = [], alerts = [] \<rparr>"

text \<open>
  \<^verbatim>\<open>setConnectionStatus(connected, text)\<close>; every call in the script passes a non-empty
  text.
\<close>

definition setConnectionStatus :: "bool \<Rightarrow> string \<Rightarrow> state \<Rightarrow> state" where
  "setConnectionStatus c txt st =
     st\<lparr> statusConnected := c,
         statusText := (if txt \<noteq> [] then txt else if c then ''Connected'' else ''Disconnected'') \<rparr>"

subsection \<open>The store and rendering\<close>

text \<open>
  \<^verbatim>\<open>Map.prototype.has\<close> and \<^verbatim>\<open>Map.prototype.set\<close>. Keys are compared by SameValueZero:
  primitives by value (NaN equal to itself), objects by reference. \<^verbatim>\<open>set\<close> replaces the
  value of a key in place and appends a new key at the end.
\<close>

definition map_has :: "(jsval \<times> msg) list \<Rightarrow> jsval \<Rightarrow> bool" where
  "map_has store k = (k \<in> fst ` set store)"

definition map_set :: "(jsval \<times> msg) list \<Rightarrow> jsval \<Rightarrow> msg \<Rightarrow> (jsval \<times> msg) list" where
  "map_set store k m = AList.update k m store"

text \<open>
  After the message is stored, \<^verbatim>\<open>renderMessage\<close> builds the message group, and that
  can throw: \<^verbatim>\<open>generateAvatarUrl\<close> and the own-message test call string methods of
  \<^verbatim>\<open>msg.userName\<close>, \<^verbatim>\<open>formatTime\<close> converts \<^verbatim>\<open>msg.timestamp\<close> to a date,
  \<^verbatim>\<open>setAttribute('data-id', msg.id)\<close> converts an id that is not null or undefined to a
  string, and \<^verbatim>\<open>el\<close> appends \<^verbatim>\<open>msg.message\<close> as a child: a string, or an array
  (flattened one level) of strings; anything else is not a node. Strings are byte
  strings here, so the malformed-surrogate failure of \<^verbatim>\<open>encodeURIComponent\<close> is outside
  the model.
\<close>

fun appendable :: "jsval \<Rightarrow> bool" where
  "appendable (JStr s) = True"
| "appendable (JArr a xs) = list_all typeof_string xs"
| "appendable v = False"

definition renderable :: "msg \<Rightarrow> bool" where
  "renderable m =
     (typeof_string (userName m) \<and> convertible (timestamp m) \<and>
      (nullish (id_field m) \<or> convertible (id_field m)) \<and> appendable (message m))"

text \<open>
  \<^verbatim>\<open>renderMessage(msg)\<close>, with \<open>None\<close> for \<^verbatim>\<open>null\<close>. The result pairs the exception
  thrown, if any, with the state left behind: a message whose group cannot be built stays
  in the store without being appended to the container.
\<close>

definition renderMessage :: "state \<Rightarrow> msg option \<Rightarrow> js_error option \<times> state" where
  "renderMessage st mo =
     (case mo of
        None \<Rightarrow> (None, st)
      | Some m \<Rightarrow>
          if map_has (messages st) (id_field m) then (None, st)
          else
            (let st1 = st\<lparr> messages := map_set (messages st) (id_field m) m \<rparr> in
             if renderable m then (None, st1\<lparr> container := container st1 @ [m] \<rparr>)
             else (Some TypeError, st1)))"

text \<open>\<^verbatim>\<open>msgs.forEach(renderMessage)\<close>: an exception ends the loop.\<close>

fun forEach_renderMessage :: "state \<Rightarrow> msg list \<Rightarrow> js_error option \<times> state" where
  "forEach_renderMessage st [] = (None, st)"
| "forEach_renderMessage st (m # ms) =
     (case renderMessage st (Some m) of
        (Some e, st') \<Rightarrow> (Some e, st')
      | (None, st') \<Rightarrow> forEach_renderMessage st' ms)"

text \<open>
  \<^verbatim>\<open>raws.map(normalizeMessage)\<close>: the \<open>i\<close>-th call has its own clock readings and random
  draw, \<open>tks i\<close>.
\<close>

fun map_normalizeMessage ::
  "runtime \<Rightarrow> (nat \<Rightarrow> tick) \<Rightarrow> nat \<Rightarrow> jsval list \<Rightarrow> js_error + msg option list" where
  "map_normalizeMessage rt tks i [] = Inr []"
| "map_normalizeMessage rt tks i (raw # raws) =
     (case normalizeMessage rt (tks i) raw of
        Inl e \<Rightarrow> Inl e
      | Inr mo \<Rightarrow>
          (case map_normalizeMessage rt tks (Suc i) raws of
             Inl e \<Rightarrow> Inl e
           | Inr mos \<Rightarrow> Inr (mo # mos)))"

text \<open>\<^verbatim>\<open>.filter(Boolean)\<close> on the results of \<^verbatim>\<open>normalizeMessage\<close>: drops the nulls.\<close>

definition filter_Boolean :: "msg option list \<Rightarrow> msg list" where
  "filter_Boolean mos = List.map_filter (\<lambda>mo. mo) mos"

subsection \<open>Sorting the history\<close>

text \<open>
  Subtraction of numbers. A finite difference is kept exact; binary64 rounds it, to a
  value of the same sign.
\<close>

fun js_sub :: "jsnum \<Rightarrow> jsnum \<Rightarrow> jsnum" where
  "js_sub NaN y = NaN"
| "js_sub x NaN = NaN"
| "js_sub (Fin a) (Fin b) = Fin (a - b)"
| "js_sub (Fin a) PInf = NInf"
| "js_sub (Fin a) NInf = PInf"
| "js_sub PInf PInf = NaN"
| "js_sub PInf y = PInf"
| "js_sub NInf NInf = NaN"
| "js_sub NInf y = NInf"

fun positive :: "jsnum \<Rightarrow> bool" where
  "positive (Fin r) = (0 < r)"
| "positive PInf = True"
| "positive n = False"

text \<open>The comparator \<^verbatim>\<open>(a, b) => (a.timestamp || 0) - (b.timestamp || 0)\<close>.\<close>

definition compare_timestamp :: "runtime \<Rightarrow> msg \<Rightarrow> msg \<Rightarrow> js_error + jsnum" where
  "compare_timestamp rt a b =
     (case to_number rt (js_or (timestamp a) (JNum (Fin 0))) of
        Inl e \<Rightarrow> Inl e
      | Inr x \<Rightarrow>
          (case to_number rt (js_or (timestamp b) (JNum (Fin 0))) of
             Inl e \<Rightarrow> Inl e
           | Inr y \<Rightarrow> Inr (js_sub x y)))"

text \<open>
  \<^verbatim>\<open>Array.prototype.sort\<close> reads the comparator's result \<open>v\<close> for \<open>(a, b)\<close> as
  \<open>a\<close> before \<open>b\<close> when \<open>v < 0\<close>, \<open>a\<close> after \<open>b\<close> when \<open>v > 0\<close>, and as equal
  otherwise (NaN counts as zero).
\<close>

fun negative :: "jsnum \<Rightarrow> bool" where
  "negative (Fin r) = (r < 0)"
| "negative NInf = True"
| "negative n = False"

definition sorts_equal :: "jsnum \<Rightarrow> bool" where
  "sorts_equal v = (\<not> negative v \<and> \<not> positive v)"

text \<open>
  The comparator is consistent on a list when, on its elements, being equal is
  reflexive, symmetric and transitive, and before and after are transitive. Then the
  result of the sort is fixed: it is stable, so it is what insertion from the right
  gives. An exception of the comparator ends the sort; this comparator throws for an
  element, whatever it is compared with, and with two or more elements every element
  is compared.
\<close>

definition consistent_comparator :: "('a \<Rightarrow> 'a \<Rightarrow> jsnum) \<Rightarrow> 'a list \<Rightarrow> bool" where
  "consistent_comparator c xs =
     (\<forall>x\<in>set xs. \<forall>y\<in>set xs. \<forall>z\<in>set xs.
        sorts_equal (c x x) \<and>
        (sorts_equal (c x y) \<longrightarrow> sorts_equal (c y x)) \<and>
        (sorts_equal (c x y) \<and> sorts_equal (c y z) \<longrightarrow> sorts_equal (c x z)) \<and>
        (negative (c x y) \<and> negative (c y z) \<longrightarrow> negative (c x z)) \<and>
        (positive (c x y) \<and> positive (c y z) \<longrightarrow> positive (c x z)))"

fun insert_sorted ::
  "('a \<Rightarrow> 'a \<Rightarrow> js_error + jsnum) \<Rightarrow> 'a \<Rightarrow> 'a list \<Rightarrow> js_error + 'a list" where
  "insert_sorted cmp x [] = Inr [x]"
| "insert_sorted cmp x (y # ys) =
     (case cmp x y of
        Inl e \<Rightarrow> Inl e
      | Inr c \<Rightarrow>
          if positive c
          then (case insert_sorted cmp x ys of Inl e \<Rightarrow> Inl e | Inr zs \<Rightarrow> Inr (y # zs))
          else Inr (x # y # ys))"

fun insertion_sort :: "('a \<Rightarrow> 'a \<Rightarrow> js_error + jsnum) \<Rightarrow> 'a list \<Rightarrow> js_error + 'a list" where
  "insertion_sort cmp [] = Inr []"
| "insertion_sort cmp (x # xs) =
     (case insertion_sort cmp xs of Inl e \<Rightarrow> Inl e | Inr ys \<Rightarrow> insert_sorted cmp x ys)"

text \<open>
  \<^verbatim>\<open>msgs.sort((a, b) => (a.timestamp || 0) - (b.timestamp || 0))\<close>. Where the
  comparator is not consistent the standard leaves the order to the engine.
\<close>

definition js_sort :: "runtime \<Rightarrow> msg list \<Rightarrow> js_error + msg list" where
  "js_sort rt ms =
     (case insertion_sort (compare_timestamp rt) ms of
        Inl e \<Rightarrow> Inl e
      | Inr sorted_msgs \<Rightarrow>
          if consistent_comparator
               (\<lambda>a b. case compare_timestamp rt a b of Inr v \<Rightarrow> v | Inl e \<Rightarrow> NaN) ms
          then Inr sorted_msgs
          else Inr (engine_sort rt ms))"

text \<open>
  \<^verbatim>\<open>renderInitialMessages(messages)\<close>: nothing unless the argument is an array; an
  exception of \<^verbatim>\<open>normalizeMessage\<close> or of the comparator leaves before anything is
  rendered.
\<close>

definition renderInitialMessages ::
  "runtime \<Rightarrow> (nat \<Rightarrow> tick) \<Rightarrow> state \<Rightarrow> jsval \<Rightarrow> js_error option \<times> state" where
  "renderInitialMessages rt tks st msgs =
     (case msgs of
        JArr a raws \<Rightarrow>
          (case map_normalizeMessage rt tks 0 raws of
             Inl e \<Rightarrow> (Some e, st)
           | Inr mos \<Rightarrow>
               (case js_sort rt (filter_Boolean mos) of
                  Inl e \<Rightarrow> (Some e, st)
                | Inr sorted_msgs \<Rightarrow> forEach_renderMessage st sorted_msgs))
      | _ \<Rightarrow> (None, st))"

section \<open>WebSocket management\<close>

text \<open>
  \<^verbatim>\<open>state.wsBackoffMs *= 2\<close>. On the values the field holds the doubling is exact in
  binary64 as long as it stays below \<open>2 ^ 1024\<close>, and Infinity beyond.
\<close>

definition js_double :: "enat \<Rightarrow> enat" where
  "js_double x = (case x of enat n \<Rightarrow> if 2 * n < 2 ^ 1024 then enat (2 * n) else \<infinity> | \<infinity> \<Rightarrow> \<infinity>)"

text \<open>
  \<^verbatim>\<open>setTimeout(connectWebSocket, Math.min(state.wsBackoffMs *= 2, state.wsMaxBackoffMs))\<close>:
  the field is doubled first, and the doubled value, capped, is the delay.
\<close>

definition schedule_reconnect :: "state \<Rightarrow> state" where
  "schedule_reconnect st =
     (let st1 = st\<lparr> wsBackoffMs := js_double (wsBackoffMs st) \<rparr>
      in st1\<lparr> timers := timers st1 @ [min (wsBackoffMs st1) (wsMaxBackoffMs st1)] \<rparr>)"

text \<open>
  \<^verbatim>\<open>connectWebSocket()\<close>. \<^verbatim>\<open>new URL(state.wsUrl)\<close> and setting the token as a search
  parameter stand outside the \<^verbatim>\<open>try\<close> and can throw; an exception of the
  \<^verbatim>\<open>WebSocket\<close> constructor is caught and schedules a reconnect.
\<close>

definition connectWebSocket :: "runtime \<Rightarrow> state \<Rightarrow> js_error option \<times> state" where
  "connectWebSocket rt st =
     (if \<not> truthy (wsUrl st) \<or> \<not> truthy (token st)
      then (None, setConnectionStatus False ''Missing WebSocket URL'' st)
      else if \<not> url_valid rt (wsUrl st) \<or> \<not> convertible (token st)
      then (Some TypeError, st)
      else if socket_constructible rt (wsUrl st)
      then (None, st\<lparr> ws := Some (WebSocket (wsUrl st) (token st) (username st)) \<rparr>)
      else (None, schedule_reconnect st))"

text \<open>The listeners that \<^verbatim>\<open>connectWebSocket\<close> attaches to the socket.\<close>

definition ws_open :: "state \<Rightarrow> state" where
  "ws_open st = setConnectionStatus True ''Connected'' (st\<lparr> connected := True, wsBackoffMs := 500 \<rparr>)"

definition ws_close :: "state \<Rightarrow> state" where
  "ws_close st =
     schedule_reconnect
       ((setConnectionStatus False ''Reconnecting...'' (st\<lparr> connected := False \<rparr>))\<lparr> ws := None \<rparr>)"

definition ws_error :: "state \<Rightarrow> state" where
  "ws_error st = st"

text \<open>
  The \<^verbatim>\<open>message\<close> listener, for a text frame \<open>d\<close>: the frame is parsed as JSON if it
  can be and kept as a string otherwise. Every parse allocates its objects anew, so the
  same frame parsed at two moments gives two values with different references.
\<close>

definition ws_message ::
  "runtime \<Rightarrow> (nat \<Rightarrow> tick) \<Rightarrow> string \<Rightarrow> state \<Rightarrow> js_error option \<times> state" where
  "ws_message rt tks d st =
     (let data = (case json_parse rt d of
                    Some v \<Rightarrow> shift_refs (heap_base (tks 0)) v
                  | None \<Rightarrow> JStr d) in
      case js_get data ''messages'' of
        JArr a raws \<Rightarrow>
          (case map_normalizeMessage rt tks 0 raws of
             Inl e \<Rightarrow> (Some e, st)
           | Inr mos \<Rightarrow> forEach_renderMessage st (filter_Boolean mos))
      | _ \<Rightarrow>
          (case normalizeMessage rt (tks 0) data of
             Inl e \<Rightarrow> (Some e, st)
           | Inr None \<Rightarrow> (None, st)
           | Inr (Some m) \<Rightarrow> renderMessage st (Some m)))"

text \<open>The \<open>i\<close>-th pending timer fires: it is spent and \<^verbatim>\<open>connectWebSocket\<close> runs.\<close>

definition timer_fired :: "runtime \<Rightarrow> nat \<Rightarrow> state \<Rightarrow> js_error option \<times> state" where
  "timer_fired rt i st =
     (if i < length (timers st)
      then connectWebSocket rt (st\<lparr> timers := take i (timers st) @ drop (Suc i) (timers st) \<rparr>)
      else (None, st))"

section \<open>Authentication\<close>

text \<open>
  \<^verbatim>\<open>handleLogin\<close> from the point where the login request settles. \<open>name\<close> is the
  trimmed user name of the form; the response is \<open>None\<close> when \<^verbatim>\<open>postJSON\<close> rejects.
  Alerts are recorded by their fixed text.
\<close>

definition login_failed :: "state \<Rightarrow> state" where
  "login_failed st = setConnectionStatus False ''Login failed'' (st\<lparr> alerts := alerts st @ [''Login failed''] \<rparr>)"

text \<open>
  The end of \<^verbatim>\<open>handleLogin\<close>, after the history block: an exception of
  \<^verbatim>\<open>connectWebSocket\<close> lands in the outer \<^verbatim>\<open>catch\<close>.
\<close>

definition connect_after_history :: "runtime \<Rightarrow> state \<Rightarrow> state" where
  "connect_after_history rt st =
     (case connectWebSocket rt (setConnectionStatus False ''Connecting...'' st) of
        (None, st') \<Rightarrow> st'
      | (Some e, st') \<Rightarrow> login_failed st')"

definition login_responded :: "runtime \<Rightarrow> string \<Rightarrow> jsval option \<Rightarrow> state \<Rightarrow> state" where
  "login_responded rt name res st =
     (case res of
        None \<Rightarrow> login_failed st
      | Some r \<Rightarrow>
          if nullish r then login_failed st
          else if truthy (js_get r ''token'')
          then
            (let st1 = setConnectionStatus False ''Loading messages...''
                         (st\<lparr> username := Some name, token := js_get r ''token'',
                              wsUrl := js_or (js_get r ''wsUrl'') (js_or (js_get r ''websocketUrl'') JNull),
                              chatShown := True \<rparr>)
             in if convertible (token st1)
                then st1\<lparr> requests := requests st1 @ [GetStoredMessages (token st1)] \<rparr>
                else connect_after_history rt st1)
          else login_failed st)"

text \<open>
  The history request settles: \<open>None\<close> when the fetch fails, the response is not ok or
  its body is not JSON. The whole block sits in a \<^verbatim>\<open>try\<close> whose \<^verbatim>\<open>catch\<close> only
  logs, so an exception of \<^verbatim>\<open>renderInitialMessages(data.messages || [])\<close> is dropped
  with whatever it had stored until then. Nothing in the block reads the session.
\<close>

definition history_responded ::
  "runtime \<Rightarrow> (nat \<Rightarrow> tick) \<Rightarrow> jsval option \<Rightarrow> state \<Rightarrow> state" where
  "history_responded rt tks resp st =
     connect_after_history rt
       (case resp of
          None \<Rightarrow> st
        | Some data \<Rightarrow>
            if nullish data then st
            else snd (renderInitialMessages rt tks st (js_or (js_get data ''messages'') (JArr 0 []))))"

section \<open>Message sending\<close>

text \<open>
  \<^verbatim>\<open>String.prototype.trim\<close> on strings of 8-bit characters: tab, line feed, vertical
  tab, form feed, carriage return, space and no-break space are removed at both ends.
\<close>

definition js_space :: "char \<Rightarrow> bool" where
  "js_space c = ((of_char c :: nat) \<in> {9, 10, 11, 12, 13, 32, 160})"

definition trim :: "string \<Rightarrow> string" where
  "trim s = rev (dropWhile js_space (rev (dropWhile js_space s)))"

definition name_value :: "string option \<Rightarrow> jsval" where
  "name_value n = (case n of None \<Rightarrow> JNull | Some s \<Rightarrow> JStr s)"

text \<open>
  \<^verbatim>\<open>sendMessage()\<close> up to its \<^verbatim>\<open>await\<close>. \<^verbatim>\<open>postJSON\<close> writes the token into the
  Authorization header before it calls \<^verbatim>\<open>fetch\<close>; if that conversion throws, no
  request leaves and the \<^verbatim>\<open>catch\<close> and \<^verbatim>\<open>finally\<close> blocks run at once.
\<close>

definition sendMessage :: "state \<Rightarrow> state" where
  "sendMessage st =
     (let text = trim (messageInput st) in
      if text = [] \<or> \<not> truthy (token st) then st
      else if convertible (token st)
      then st\<lparr> sendDisabled := True,
               requests := requests st @
                 [PostJSON ''/addMessages''
                    [(''senderId'', name_value (username st)), (''content'', JStr text)]
                    (token st)] \<rparr>
      else st\<lparr> sendDisabled := False,
               alerts := alerts st @ [''Failed to send message. Please try again.''] \<rparr>)"

text \<open>The request of \<^verbatim>\<open>sendMessage\<close> settles: \<open>ok\<close> unless \<^verbatim>\<open>postJSON\<close> rejects.\<close>

definition send_settled :: "bool \<Rightarrow> state \<Rightarrow> state" where
  "send_settled ok st =
     (if ok then st\<lparr> messageInput := [], sendDisabled := False \<rparr>
      else st\<lparr> sendDisabled := False,
               alerts := alerts st @ [''Failed to send message. Please try again.''] \<rparr>)"

section \<open>Events\<close>

text \<open>
  Everything after start-up happens in a handler. The events the script reacts to, and
  the state after the handler has run (an exception that leaves a listener or a timer
  callback is reported by the browser and changes nothing more).
\<close>

datatype event =
    LoginResponded string "jsval option"
  | HistoryResponded "jsval option"
  | SocketOpened
  | SocketMessage string
  | SocketClosed
  | SocketError
  | TimerFired nat
  | InputTyped string
  | SendRequested
  | SendSettled bool

fun handle :: "runtime \<Rightarrow> (nat \<Rightarrow> tick) \<Rightarrow> event \<Rightarrow> state \<Rightarrow> state" where
  "handle rt tks (LoginResponded name res) st = login_responded rt name res st"
| "handle rt tks (HistoryResponded resp) st = history_responded rt tks resp st"
| "handle rt tks SocketOpened st = ws_open st"
| "handle rt tks (SocketMessage d) st = snd (ws_message rt tks d st)"
| "handle rt tks SocketClosed st = ws_close st"
| "handle rt tks SocketError st = ws_error st"
| "handle rt tks (TimerFired i) st = snd (timer_fired rt i st)"
| "handle rt tks (InputTyped s) st = st\<lparr> messageInput := s \<rparr>"
| "handle rt tks SendRequested st = sendMessage st"
| "handle rt tks (SendSettled ok) st = send_settled ok st"

text \<open>
  A run: the handlers of a list of events, one after the other. The \<open>n\<close>-th event has
  its own clock readings and random draws, \<open>tks n\<close>.
\<close>

fun run :: "runtime \<Rightarrow> (nat \<Rightarrow> nat \<Rightarrow> tick) \<Rightarrow> nat \<Rightarrow> event list \<Rightarrow> state \<Rightarrow> state" where
  "run rt tks n [] st = st"
| "run rt tks n (e # es) st = run rt tks (Suc n) es (handle rt (tks n) e st)"

section \<open>Notions used in the statements\<close>

text \<open>
  A message whose timestamp is a finite number or NaN (the time of an unparsable
  \<^verbatim>\<open>createdAt\<close>), and the key the comparator sorts such a message by: the timestamp,
  with 0 for NaN.
\<close>

definition numeric_timestamp :: "msg \<Rightarrow> bool" where
  "numeric_timestamp m =
     (case timestamp m of JNum (Fin r) \<Rightarrow> True | JNum NaN \<Rightarrow> True | _ \<Rightarrow> False)"

definition time_of :: "msg \<Rightarrow> real" where
  "time_of m = (case timestamp m of JNum (Fin r) \<Rightarrow> r | _ \<Rightarrow> 0)"

text \<open>
  A concrete engine and concrete inputs for the examples: natural numbers are printed
  in decimal, two frames are JSON and every other string is not, no string is a number
  or a date, and any string is good as a URL.
\<close>

fun decimal :: "nat \<Rightarrow> string" where
  "decimal n =
     (if n < 10 then [''0123456789'' ! n]
      else decimal (n div 10) @ [''0123456789'' ! (n mod 10)])"

definition sample_runtime :: runtime where
  "sample_runtime =
     \<lparr> num_to_string = (\<lambda>r. decimal (nat \<lfloor>r\<rfloor>)),
       string_to_num = (\<lambda>s. NaN),
       date_parse = (\<lambda>s. NaN),
       json_parse = (\<lambda>s.
         if s = ''{\"senderId\":\"ann\",\"content\":\"hello\"}''
         then Some (JObj 1 [(''senderId'', JStr ''ann''), (''content'', JStr ''hello'')])
         else if s = ''{\"senderId\":{\"toString\":1}}''
         then Some (JObj 2 [(''senderId'', JObj 3 [(''toString'', JNum (Fin 1))])])
         else None),
       url_valid = typeof_string,
       socket_constructible = typeof_string,
       engine_sort = (\<lambda>ms. ms) \<rparr>"

definition sample_ticks :: "nat \<Rightarrow> nat \<Rightarrow> tick" where
  "sample_ticks n i =
     \<lparr> now_id = 1700 + real n, random36 = ''k'' @ decimal n @ decimal i, now_ts = 1700 + real n,
       heap_base = 1000 * Suc n \<rparr>"

definition sample_session :: state where
  "sample_session =
     initial_state\<lparr> username := Some ''ann'', token := JStr ''tok'',
                    wsUrl := JStr ''wss://chat.example/ws'', chatShown := True \<rparr>"

definition sample_history :: jsval where
  "sample_history =
     JArr 10
       [JObj 11 [(''id'', JStr ''m1''), (''senderId'', JStr ''bob''), (''content'', JStr ''third''),
                 (''timestamp'', JNum (Fin 300))],
        JObj 12 [(''id'', JStr ''m2''), (''senderId'', JStr ''ann''), (''content'', JStr ''first''),
                 (''timestamp'', JNum (Fin 100))],
        JObj 13 [(''id'', JStr ''m3''), (''senderId'', JStr ''bob''), (''content'', JStr ''second''),
                 (''timestamp'', JNum (Fin 200))]]"




text \<open>A history whose timestamps are ISO date strings: March, January, February.\<close>

definition sample_iso_history :: jsval where
  "sample_iso_history =
     JArr 40
       [JObj 41 [(''id'', JStr ''m1''), (''senderId'', JStr ''bob''), (''content'', JStr ''third''),
                 (''timestamp'', JStr ''2024-03-01T00:00:00Z'')],
        JObj 42 [(''id'', JStr ''m2''), (''senderId'', JStr ''ann''), (''content'', JStr ''first''),
                 (''timestamp'', JStr ''2024-01-01T00:00:00Z'')],
        JObj 43 [(''id'', JStr ''m3''), (''senderId'', JStr ''bob''), (''content'', JStr ''second''),
                 (''timestamp'', JStr ''2024-02-01T00:00:00Z'')]]"

definition sample_m1 :: msg where
  "sample_m1 = \<lparr> id_field = JStr ''m1'', userName = JStr ''bob'', message = JStr ''third'',
                  timestamp = JNum (Fin 300) \<rparr>"

definition sample_m2 :: msg where
  "sample_m2 = \<lparr> id_field = JStr ''m2'', userName = JStr ''ann'', message = JStr ''first'',
                  timestamp = JNum (Fin 100) \<rparr>"

definition sample_m3 :: msg where
  "sample_m3 = \<lparr> id_field = JStr ''m3'', userName = JStr ''bob'', message = JStr ''second'',
                  timestamp = JNum (Fin 200) \<rparr>"

section \<open>Properties of the store\<close>

lemma map_has_set: "map_has (map_set store k m) k"
  by (simp add: map_has_def map_set_def dom_update)

lemma map_set_distinct: "distinct (map fst store) \<Longrightarrow> distinct (map fst (map_set store k m))"
  by (simp add: map_set_def distinct_update)

lemma map_has_mono: "map_has store j \<Longrightarrow> map_has (map_set store k m) j"
  by (simp add: map_has_def map_set_def dom_update)

lemma renderMessage_messages:
  "messages (snd (renderMessage st (Some m))) =
     (if map_has (messages st) (id_field m) then messages st
      else map_set (messages st) (id_field m) m)"
  by (simp add: renderMessage_def Let_def)

lemma renderMessage_container:
  "container (snd (renderMessage st (Some m))) =
     (if map_has (messages st) (id_field m) \<or> \<not> renderable m then container st
      else container st @ [m])"
  by (simp add: renderMessage_def Let_def)

lemma renderMessage_thrown:
  "fst (renderMessage st (Some m)) =
     (if map_has (messages st) (id_field m) \<or> renderable m then None else Some TypeError)"
  by (simp add: renderMessage_def Let_def)

lemma forEach_Cons:
  "forEach_renderMessage st (m # ms) =
     (if fst (renderMessage st (Some m)) = None
      then forEach_renderMessage (snd (renderMessage st (Some m))) ms
      else renderMessage st (Some m))"
  by (cases "renderMessage st (Some m)") (auto split: option.splits)

lemma forEach_agree:
  "messages st = messages st' \<Longrightarrow> container st = container st' \<Longrightarrow>
   fst (forEach_renderMessage st ms) = fst (forEach_renderMessage st' ms) \<and>
   messages (snd (forEach_renderMessage st ms)) = messages (snd (forEach_renderMessage st' ms)) \<and>
   container (snd (forEach_renderMessage st ms)) = container (snd (forEach_renderMessage st' ms))"
proof (induction ms arbitrary: st st')
  case Nil
  then show ?case by simp
next
  case (Cons m ms)
  let ?s = "snd (renderMessage st (Some m))" and ?s' = "snd (renderMessage st' (Some m))"
  have same: "fst (renderMessage st (Some m)) = fst (renderMessage st' (Some m))"
    "messages ?s = messages ?s'" "container ?s = container ?s'"
    using Cons.prems
    by (simp_all add: renderMessage_thrown renderMessage_messages renderMessage_container)
  show ?case
  proof (cases "fst (renderMessage st (Some m)) = None")
    case True
    then show ?thesis
      using same Cons.IH [of ?s ?s'] by (simp only: forEach_Cons) simp
  next
    case False
    then show ?thesis
      using same by (simp only: forEach_Cons) simp
  qed
qed

lemma forEach_mono:
  "map_has (messages st) k \<Longrightarrow> map_has (messages (snd (forEach_renderMessage st ms))) k"
proof (induction ms arbitrary: st)
  case Nil
  then show ?case by simp
next
  case (Cons m ms)
  have step: "map_has (messages (snd (renderMessage st (Some m)))) k"
    using Cons.prems by (simp add: renderMessage_messages map_has_mono)
  show ?case
    using step Cons.IH [OF step] by (simp only: forEach_Cons split: if_splits) simp
qed

lemma forEach_distinct:
  "distinct (map fst (messages st)) \<Longrightarrow>
   distinct (map fst (messages (snd (forEach_renderMessage st ms))))"
proof (induction ms arbitrary: st)
  case Nil
  then show ?case by simp
next
  case (Cons m ms)
  have step: "distinct (map fst (messages (snd (renderMessage st (Some m)))))"
    using Cons.prems by (simp add: renderMessage_messages map_set_distinct)
  show ?case
    using step Cons.IH [OF step] by (simp only: forEach_Cons split: if_splits) simp
qed

lemma count_key_distinct:
  "distinct (map fst al) \<Longrightarrow> k \<in> fst ` set al \<Longrightarrow> length (filter (\<lambda>e. fst e = k) al) = 1"
proof (induction al)
  case Nil
  then show ?case by simp
next
  case (Cons p al)
  show ?case
  proof (cases "fst p = k")
    case True
    from Cons.prems True have "k \<notin> fst ` set al"
      by simp
    then have "\<forall>e\<in>set al. fst e \<noteq> k"
      by (metis imageI)
    then have "filter (\<lambda>e. fst e = k) al = []"
      by (simp add: filter_empty_conv)
    with True show ?thesis by simp
  next
    case False
    with Cons show ?thesis by auto
  qed
qed

lemma render_twice:
  "id_field m' = id_field m \<Longrightarrow>
   renderMessage (snd (renderMessage st (Some m))) (Some m') =
     (None, snd (renderMessage st (Some m)))"
  by (simp add: renderMessage_def Let_def map_has_set)

lemma render_count:
  "distinct (map fst (messages st)) \<Longrightarrow>
   length (filter (\<lambda>e. fst e = id_field m) (messages (snd (renderMessage st (Some m))))) = 1"
proof -
  assume d: "distinct (map fst (messages st))"
  let ?st = "snd (renderMessage st (Some m))"
  have "distinct (map fst (messages ?st))"
    using d by (simp add: renderMessage_def Let_def map_set_distinct)
  moreover have "id_field m \<in> fst ` set (messages ?st)"
    using map_has_set [of "messages st" "id_field m" m]
    by (auto simp add: renderMessage_def Let_def map_has_def)
  ultimately show ?thesis
    by (rule count_key_distinct)
qed

subsection \<open>Handlers that leave the store and the container alone\<close>

lemma connectWebSocket_store:
  "messages (snd (connectWebSocket rt st)) = messages st"
  "container (snd (connectWebSocket rt st)) = container st"
  by (simp_all add: connectWebSocket_def setConnectionStatus_def schedule_reconnect_def Let_def)

lemma login_failed_store:
  "messages (login_failed st) = messages st" "container (login_failed st) = container st"
  by (simp_all add: login_failed_def setConnectionStatus_def)

lemma connect_after_history_store:
  "messages (connect_after_history rt st) = messages st"
  "container (connect_after_history rt st) = container st"
proof -
  let ?st = "setConnectionStatus False ''Connecting...'' st"
  have m: "messages ?st = messages st" "container ?st = container st"
    by (simp_all add: setConnectionStatus_def)
  show "messages (connect_after_history rt st) = messages st"
    using connectWebSocket_store(1) [of rt ?st] m
    by (cases "connectWebSocket rt ?st")
      (auto simp add: connect_after_history_def login_failed_store split: option.splits)
  show "container (connect_after_history rt st) = container st"
    using connectWebSocket_store(2) [of rt ?st] m
    by (cases "connectWebSocket rt ?st")
      (auto simp add: connect_after_history_def login_failed_store split: option.splits)
qed

lemma login_responded_store:
  "messages (login_responded rt name res st) = messages st"
  "container (login_responded rt name res st) = container st"
  by (simp_all add: login_responded_def Let_def login_failed_store connect_after_history_store
      setConnectionStatus_def split: option.splits)

lemma socket_handlers_store:
  "messages (ws_open st) = messages st" "container (ws_open st) = container st"
  "messages (ws_close st) = messages st" "container (ws_close st) = container st"
  "messages (ws_error st) = messages st" "container (ws_error st) = container st"
  "messages (snd (timer_fired rt i st)) = messages st"
  "container (snd (timer_fired rt i st)) = container st"
  by (simp_all add: ws_open_def ws_close_def ws_error_def timer_fired_def connectWebSocket_store
      setConnectionStatus_def schedule_reconnect_def Let_def)

lemma send_store:
  "messages (sendMessage st) = messages st" "container (sendMessage st) = container st"
  "messages (send_settled ok st) = messages st" "container (send_settled ok st) = container st"
  by (simp_all add: sendMessage_def send_settled_def Let_def)

lemma handle_store:
  assumes "messages (handle rt tks e st) \<noteq> messages st \<or> container (handle rt tks e st) \<noteq> container st"
  shows "(\<exists>d. e = SocketMessage d) \<or> (\<exists>r. e = HistoryResponded r)"
  using assms
  by (cases e) (simp_all add: login_responded_store socket_handlers_store send_store)

subsection \<open>Sorting by timestamp\<close>

lemma compare_numeric:
  "numeric_timestamp a \<Longrightarrow> numeric_timestamp b \<Longrightarrow>
   compare_timestamp rt a b = Inr (Fin (time_of a - time_of b))"
  by (auto simp add: compare_timestamp_def js_or_def to_number_def numeric_timestamp_def time_of_def
      split: jsval.splits jsnum.splits)

lemma insert_sorted_insort:
  assumes "numeric_timestamp x" and "\<forall>m\<in>set ys. numeric_timestamp m"
  shows "insert_sorted (compare_timestamp rt) x ys = Inr (insort_key time_of x ys)"
  using assms
proof (induction ys)
  case Nil
  then show ?case by simp
next
  case (Cons y ys)
  have rest: "insert_sorted (compare_timestamp rt) x ys = Inr (insort_key time_of x ys)"
    using Cons by simp
  have "compare_timestamp rt x y = Inr (Fin (time_of x - time_of y))"
    using Cons.prems by (simp add: compare_numeric)
  then show ?case
    using rest by (simp add: not_le)
qed

lemma insertion_sort_sort_key:
  assumes "\<forall>m\<in>set ms. numeric_timestamp m"
  shows "insertion_sort (compare_timestamp rt) ms = Inr (sort_key time_of ms)"
  using assms
proof (induction ms)
  case Nil
  then show ?case by simp
next
  case (Cons m ms)
  have tail: "insertion_sort (compare_timestamp rt) ms = Inr (sort_key time_of ms)"
    using Cons by simp
  have "\<forall>k\<in>set (sort_key time_of ms). numeric_timestamp k"
    using Cons.prems by simp
  with Cons.prems show ?case
    by (simp add: tail insert_sorted_insort)
qed

lemma numeric_consistent:
  assumes "\<forall>m\<in>set ms. numeric_timestamp m"
  shows "consistent_comparator
           (\<lambda>a b. case compare_timestamp rt a b of Inr v \<Rightarrow> v | Inl e \<Rightarrow> NaN) ms"
proof -
  have "(case compare_timestamp rt a b of Inr v \<Rightarrow> v | Inl e \<Rightarrow> NaN) =
          Fin (time_of a - time_of b)"
    if "a \<in> set ms" and "b \<in> set ms" for a b
    using that assms by (simp add: compare_numeric)
  then show ?thesis
    by (auto simp add: consistent_comparator_def sorts_equal_def)
qed

lemma js_sort_sort_key:
  assumes "\<forall>m\<in>set ms. numeric_timestamp m"
  shows "js_sort rt ms = Inr (sort_key time_of ms)"
  using assms by (simp add: js_sort_def insertion_sort_sort_key numeric_consistent)

subsection \<open>The store only grows\<close>

lemma map_set_absent: "\<not> map_has store k \<Longrightarrow> map_set store k m = store @ [(k, m)]"
  by (induction store) (auto simp add: map_has_def map_set_def)

lemma renderInitialMessages_mono:
  "map_has (messages st) k \<Longrightarrow> map_has (messages (snd (renderInitialMessages rt tks st v))) k"
  by (auto simp add: renderInitialMessages_def forEach_mono split: jsval.splits sum.splits)

lemma renderInitialMessages_distinct:
  "distinct (map fst (messages st)) \<Longrightarrow>
   distinct (map fst (messages (snd (renderInitialMessages rt tks st v))))"
  by (auto simp add: renderInitialMessages_def forEach_distinct split: jsval.splits sum.splits)

lemma ws_message_mono:
  "map_has (messages st) k \<Longrightarrow> map_has (messages (snd (ws_message rt tks d st))) k"
  by (auto simp add: ws_message_def Let_def forEach_mono renderMessage_messages map_has_mono
      split: jsval.splits sum.splits option.splits)

lemma ws_message_distinct:
  "distinct (map fst (messages st)) \<Longrightarrow>
   distinct (map fst (messages (snd (ws_message rt tks d st))))"
  by (auto simp add: ws_message_def Let_def forEach_distinct renderMessage_messages map_set_distinct
      split: jsval.splits sum.splits option.splits)

lemma history_responded_mono:
  "map_has (messages st) k \<Longrightarrow> map_has (messages (history_responded rt tks resp st)) k"
  by (auto simp add: history_responded_def connect_after_history_store renderInitialMessages_mono
      split: option.splits)

lemma history_responded_distinct:
  "distinct (map fst (messages st)) \<Longrightarrow>
   distinct (map fst (messages (history_responded rt tks resp st)))"
  by (auto simp add: history_responded_def connect_after_history_store renderInitialMessages_distinct
      split: option.splits)

lemma handle_mono:
  "map_has (messages st) k \<Longrightarrow> map_has (messages (handle rt tks e st)) k"
  by (cases e) (simp_all add: login_responded_store socket_handlers_store send_store
      ws_message_mono history_responded_mono)

lemma handle_distinct:
  "distinct (map fst (messages st)) \<Longrightarrow> distinct (map fst (messages (handle rt tks e st)))"
  by (cases e) (simp_all add: login_responded_store socket_handlers_store send_store
      ws_message_distinct history_responded_distinct)

text \<open>The keys of the store are distinct in every state a run reaches from the start.\<close>

lemma run_distinct:
  "distinct (map fst (messages st)) \<Longrightarrow> distinct (map fst (messages (run rt tks n es st)))"
  by (induction es arbitrary: n st) (simp_all add: handle_distinct)

lemma reachable_distinct: "distinct (map fst (messages (run rt tks n es initial_state)))"
  by (rule run_distinct) (simp add: initial_state_def)

lemma renderInitialMessages_agree:
  assumes "messages st = messages st'" "container st = container st'"
  shows "messages (snd (renderInitialMessages rt tks st v)) = messages (snd (renderInitialMessages rt tks st' v))"
    and "container (snd (renderInitialMessages rt tks st v)) = container (snd (renderInitialMessages rt tks st' v))"
  using assms forEach_agree [OF assms]
  by (auto simp add: renderInitialMessages_def split: jsval.splits sum.splits)

section \<open>The normalizer\<close>

lemmas normalize_defs = normalizeMessage_def unwrap_def coalesce_def nullish_def js_or_def
  message_id_def synthesized_id_def message_timestamp_def to_string_def date_getTime_def Let_def

lemmas sample_defs = sample_runtime_def sample_ticks_def sample_session_def initial_state_def
  sample_history_def

text \<open>
  An input that is neither an object nor a string (undefined, null, a boolean, a number)
  gives \<^verbatim>\<open>null\<close>.
\<close>

lemma normalizer_rejects:
  "\<not> typeof_string raw \<Longrightarrow> \<not> typeof_object raw \<or> raw = JNull \<Longrightarrow>
   normalizeMessage rt tk raw = Inr None"
  by (cases raw) (auto simp add: normalize_defs)

text \<open>
  An exception can only come from a conversion: when every property of the unwrapped
  payload can be converted to a string, the normalizer returns.
\<close>

lemma normalizer_total_on_convertible:
  assumes "\<forall>k. convertible (js_get (unwrap raw) k)"
  shows "\<exists>r. normalizeMessage rt tk raw = Inr r"
proof -
  have c: "\<And>k. convertible (js_get (unwrap raw) k)"
    using assms by simp
  have or_conv: "\<And>a b. convertible a \<Longrightarrow> convertible b \<Longrightarrow> convertible (js_or a b)"
    by (simp add: js_or_def)
  show ?thesis
  proof (cases "typeof_string (unwrap raw)")
    case True
    then show ?thesis
      by (cases "unwrap raw")
        (simp_all add: normalizeMessage_def message_id_def synthesized_id_def message_timestamp_def
          to_string_def date_getTime_def coalesce_def nullish_def js_or_def Let_def)
  next
    case False
    then show ?thesis
      using c or_conv
      by (simp add: normalizeMessage_def message_id_def synthesized_id_def message_timestamp_def
          to_string_def date_getTime_def Let_def)
  qed
qed

text \<open>
  C5. Each of \<^verbatim>\<open>{senderId:"a", content:"hi", createdAt:T}\<close> (for a number or a string
  \<open>T\<close>), \<^verbatim>\<open>{userName:"a", message:"hi", timestamp:T}\<close> (for any \<open>T\<close>) and the bare string
  \<^verbatim>\<open>"hi"\<close> normalizes to a message with body \<^verbatim>\<open>"hi"\<close>; for the bare string the author
  is \<^verbatim>\<open>"unknown"\<close> and the timestamp is the clock reading. (The second input is unwrapped
  through its \<^verbatim>\<open>message\<close> property and so normalizes exactly like the bare string.)
\<close>

theorem normalizer_tolerance:
  "(\<exists>i ts. normalizeMessage rt tk
       (JObj a [(''senderId'', JStr ''a''), (''content'', JStr ''hi''), (''createdAt'', JNum n)]) =
     Inr (Some \<lparr> id_field = i, userName = JStr ''a'', message = JStr ''hi'', timestamp = ts \<rparr>)) \<and>
   (\<exists>i ts. normalizeMessage rt tk
       (JObj a [(''senderId'', JStr ''a''), (''content'', JStr ''hi''), (''createdAt'', JStr s)]) =
     Inr (Some \<lparr> id_field = i, userName = JStr ''a'', message = JStr ''hi'', timestamp = ts \<rparr>)) \<and>
   normalizeMessage rt tk
       (JObj b [(''userName'', JStr ''a''), (''message'', JStr ''hi''), (''timestamp'', T)]) =
     Inr (Some \<lparr> id_field = JStr (''user-'' @ num_to_string rt (now_id tk) @ ''-'' @ random36 tk),
                  userName = JStr ''unknown'', message = JStr ''hi'',
                  timestamp = JNum (Fin (now_ts tk)) \<rparr>) \<and>
   normalizeMessage rt tk (JStr ''hi'') =
     Inr (Some \<lparr> id_field = JStr (''user-'' @ num_to_string rt (now_id tk) @ ''-'' @ random36 tk),
                  userName = JStr ''unknown'', message = JStr ''hi'',
                  timestamp = JNum (Fin (now_ts tk)) \<rparr>)"
  by (simp add: normalize_defs)

text \<open>
  C6. The normalizer is claimed never to throw. On the payload
  \<^verbatim>\<open>{"senderId": {"toString": 1}}\<close> it throws TypeError: no id is given, so the id is
  synthesized from \<^verbatim>\<open>senderId\<close>, an object whose own \<^verbatim>\<open>toString\<close> cannot be called.
  Arriving as a socket frame, the payload makes the \<^verbatim>\<open>message\<close> listener end with that
  exception.
\<close>

theorem normalizer_throws_on_shadowed_toString:
  "normalizeMessage rt tk (JObj a [(''senderId'', JObj b [(''toString'', JNum (Fin 1))])]) =
     Inl TypeError \<and>
   ws_message sample_runtime (sample_ticks 0) ''{\"senderId\":{\"toString\":1}}'' sample_session =
     (Some TypeError, sample_session)"
  by (simp add: normalize_defs ws_message_def sample_runtime_def)




theorem normalizer_tolerance_witness:
  "normalizeMessage sample_runtime (sample_ticks 0 0)
       (JObj 1 [(''userName'', JStr ''a''), (''message'', JStr ''hi''), (''timestamp'', JNum (Fin 5))]) =
     Inr (Some \<lparr> id_field = JStr ''user-1700-k00'', userName = JStr ''unknown'',
                  message = JStr ''hi'', timestamp = JNum (Fin 1700) \<rparr>) \<and>
   normalizeMessage sample_runtime (sample_ticks 0 0) (JStr ''hi'') =
     Inr (Some \<lparr> id_field = JStr ''user-1700-k00'', userName = JStr ''unknown'',
                  message = JStr ''hi'', timestamp = JNum (Fin 1700) \<rparr>)"
  using normalizer_tolerance [of sample_runtime "sample_ticks 0 0" 1 "Fin 5" "''5''" 1 "JNum (Fin 5)"]
  by (simp add: sample_defs)

theorem normalizer_throws_witness:
  "normalizeMessage sample_runtime (sample_ticks 0 0)
     (JObj 2 [(''senderId'', JObj 3 [(''toString'', JNum (Fin 1))])]) = Inl TypeError"
  using normalizer_throws_on_shadowed_toString [of sample_runtime "sample_ticks 0 0" 2 3]
  by simp

section \<open>Reconnecting\<close>

lemmas backoff_defs = ws_close_def ws_open_def schedule_reconnect_def js_double_def
  setConnectionStatus_def timer_fired_def connectWebSocket_def Let_def numeral_eq_enat

text \<open>
  C1, as stated, fails: with the backoff field at 500 and the ceiling at 15000, the first
  failure of the connection schedules the reconnect after 1000, not 500; and after a
  successful connection the next failure again schedules 1000, not 500.
\<close>

theorem backoff_counterexample:
  "timers (run sample_runtime sample_ticks 0 [SocketClosed] sample_session) = [1000] \<and>
   timers (run sample_runtime sample_ticks 0 [SocketClosed, TimerFired 0, SocketOpened, SocketClosed]
             sample_session) = [1000]"
  by (simp add: backoff_defs sample_defs)

text \<open>
  C1, amended. The field is doubled before it is used. With the field at 500 and the
  ceiling at 15000, consecutive failures (the socket closes, the timer fires, the new
  socket closes again) schedule the delays 1000, 2000, 4000, 8000, 15000, and the sixth
  again 15000; a successful connection sets the field back to 500, so that the next
  failure schedules 1000.
\<close>

theorem backoff_delays:
  assumes "truthy (wsUrl st)" and "truthy (token st)" and "url_valid rt (wsUrl st)"
    and "convertible (token st)" and "socket_constructible rt (wsUrl st)"
    and "wsBackoffMs st = 500" and "wsMaxBackoffMs st = 15000" and "timers st = []"
  shows
   "timers (run rt tks 0 [SocketClosed] st) = [1000] \<and>
    timers (run rt tks 0 [SocketClosed, TimerFired 0, SocketClosed] st) = [2000] \<and>
    timers (run rt tks 0 [SocketClosed, TimerFired 0, SocketClosed, TimerFired 0, SocketClosed]
              st) = [4000] \<and>
    timers (run rt tks 0 [SocketClosed, TimerFired 0, SocketClosed, TimerFired 0, SocketClosed,
              TimerFired 0, SocketClosed] st) = [8000] \<and>
    timers (run rt tks 0 [SocketClosed, TimerFired 0, SocketClosed, TimerFired 0, SocketClosed,
              TimerFired 0, SocketClosed, TimerFired 0, SocketClosed] st) = [15000] \<and>
    timers (run rt tks 0 [SocketClosed, TimerFired 0, SocketClosed, TimerFired 0, SocketClosed,
              TimerFired 0, SocketClosed, TimerFired 0, SocketClosed, TimerFired 0, SocketClosed]
              st) = [15000] \<and>
    wsBackoffMs (ws_open st') = 500 \<and>
    timers (ws_close (ws_open (st'\<lparr> wsMaxBackoffMs := 15000 \<rparr>))) = timers st' @ [1000]"
  using assms by (simp add: backoff_defs)

theorem backoff_delays_witness:
  "timers (run sample_runtime sample_ticks 0
     [SocketClosed, TimerFired 0, SocketClosed, TimerFired 0, SocketClosed,
      TimerFired 0, SocketClosed, TimerFired 0, SocketClosed] sample_session) = [15000] \<and>
   timers (ws_close (ws_open (sample_session\<lparr> wsMaxBackoffMs := 15000 \<rparr>))) = [1000]"
proof -
  have h: "truthy (wsUrl sample_session)" "truthy (token sample_session)"
    "url_valid sample_runtime (wsUrl sample_session)" "convertible (token sample_session)"
    "socket_constructible sample_runtime (wsUrl sample_session)"
    "wsBackoffMs sample_session = 500" "wsMaxBackoffMs sample_session = 15000"
    "timers sample_session = []"
    by (simp_all add: sample_defs)
  show ?thesis
    using backoff_delays [OF h, of sample_ticks sample_session] h(8) by simp
qed

text \<open>
  C9. Started without a WebSocket URL or without a token (null, or the empty string),
  \<^verbatim>\<open>connectWebSocket\<close> only sets the status line to \<^verbatim>\<open>Missing WebSocket URL\<close>: it
  throws nothing, creates no socket, schedules no timer and leaves the backoff alone, so
  nothing is left that would call it again.
\<close>

theorem missing_configuration:
  "\<not> truthy (wsUrl st) \<or> \<not> truthy (token st) \<Longrightarrow>
   connectWebSocket rt st =
     (None, st\<lparr> statusConnected := False, statusText := ''Missing WebSocket URL'' \<rparr>) \<and>
   timers (snd (connectWebSocket rt st)) = timers st \<and>
   ws (snd (connectWebSocket rt st)) = ws st \<and>
   wsBackoffMs (snd (connectWebSocket rt st)) = wsBackoffMs st \<and>
   connected (snd (connectWebSocket rt st)) = connected st"
  by (auto simp add: connectWebSocket_def setConnectionStatus_def)

theorem missing_configuration_witness:
  "truthy (wsUrl (sample_session\<lparr> wsUrl := JStr [] \<rparr>)) = False \<and>
   connectWebSocket sample_runtime (sample_session\<lparr> wsUrl := JStr [] \<rparr>) =
     (None, sample_session\<lparr> wsUrl := JStr [], statusConnected := False,
                           statusText := ''Missing WebSocket URL'' \<rparr>) \<and>
   timers (snd (connectWebSocket sample_runtime (sample_session\<lparr> wsUrl := JStr [] \<rparr>))) = [] \<and>
   ws (snd (connectWebSocket sample_runtime (sample_session\<lparr> wsUrl := JStr [] \<rparr>))) = None"
proof -
  have h: "\<not> truthy (wsUrl (sample_session\<lparr> wsUrl := JStr [] \<rparr>)) \<or>
           \<not> truthy (token (sample_session\<lparr> wsUrl := JStr [] \<rparr>))"
    by simp
  show ?thesis
    using missing_configuration [OF h, of sample_runtime] by (simp add: sample_defs)
qed

section \<open>Sending\<close>

lemma trim_example: "trim '' hi '' = ''hi''"
  by (simp add: trim_def js_space_def)

text \<open>
  C8, as stated, fails: for the body \<^verbatim>\<open>" hi "\<close> the request carries the content
  \<^verbatim>\<open>"hi"\<close>, not the body.
\<close>

theorem send_counterexample:
  "requests (sendMessage (sample_session\<lparr> messageInput := '' hi '' \<rparr>)) =
     [PostJSON ''/addMessages'' [(''senderId'', JStr ''ann''), (''content'', JStr ''hi'')]
        (JStr ''tok'')]"
  by (simp add: sendMessage_def Let_def trim_example sample_defs name_value_def)

text \<open>
  C8, amended. With the body in the message input, \<^verbatim>\<open>sendMessage\<close> changes nothing and
  issues no request when the body is empty after trimming or there is no token; otherwise,
  for a token that can be written into the request header, it issues exactly one request,
  to \<^verbatim>\<open>/addMessages\<close>, carrying the user name, the trimmed body and the token.
\<close>

theorem send_precondition:
  "(trim body = [] \<or> \<not> truthy (token st) \<longrightarrow>
      sendMessage (st\<lparr> messageInput := body \<rparr>) = st\<lparr> messageInput := body \<rparr>) \<and>
   (trim body \<noteq> [] \<and> truthy (token st) \<and> convertible (token st) \<longrightarrow>
      requests (sendMessage (st\<lparr> messageInput := body \<rparr>)) =
        requests st @
          [PostJSON ''/addMessages''
             [(''senderId'', name_value (username st)), (''content'', JStr (trim body))]
             (token st)])"
  by (auto simp add: sendMessage_def Let_def)

theorem send_precondition_witness:
  "trim ''   '' = [] \<and>
   sendMessage (sample_session\<lparr> messageInput := ''   '' \<rparr>) =
     sample_session\<lparr> messageInput := ''   '' \<rparr> \<and>
   requests (sendMessage (sample_session\<lparr> messageInput := '' hi '' \<rparr>)) =
     [PostJSON ''/addMessages'' [(''senderId'', JStr ''ann''), (''content'', JStr ''hi'')]
        (JStr ''tok'')]"
proof -
  have blank: "trim ''   '' = []"
    by (simp add: trim_def js_space_def)
  have tok: "truthy (token sample_session)" "convertible (token sample_session)"
    by (simp_all add: sample_defs)
  have "sendMessage (sample_session\<lparr> messageInput := ''   '' \<rparr>) =
          sample_session\<lparr> messageInput := ''   '' \<rparr>"
    using send_precondition [of "''   ''" sample_session] blank by blast
  moreover have "requests (sendMessage (sample_session\<lparr> messageInput := '' hi '' \<rparr>)) =
     requests sample_session @ [PostJSON ''/addMessages''
             [(''senderId'', name_value (username sample_session)),
              (''content'', JStr (trim '' hi ''))]
             (token sample_session)]"
    using send_precondition [of "'' hi ''" sample_session] tok trim_example by simp
  ultimately show ?thesis
    using blank by (simp add: trim_example sample_defs name_value_def)
qed

section \<open>Admission to the store\<close>

lemmas render_defs = renderMessage_def map_has_def map_set_def renderable_def

text \<open>
  C3. Admitting a message twice leaves exactly one entry with its id in the store, and
  the second call changes nothing. Once an id is in the store, \<^verbatim>\<open>renderMessage\<close> on
  any message with that id neither stores nor renders, and no handler ever removes the
  id. (The store is a Map, so its keys are distinct; every handler keeps them so.)
\<close>

theorem idempotent_admission:
  "(distinct (map fst (messages st)) \<longrightarrow>
      length (filter (\<lambda>p. fst p = id_field m)
        (messages (snd (renderMessage (snd (renderMessage st (Some m))) (Some m))))) = 1) \<and>
   (id_field m' = id_field m \<longrightarrow>
      renderMessage (snd (renderMessage st (Some m))) (Some m') =
        (None, snd (renderMessage st (Some m)))) \<and>
   (map_has (messages st) (id_field m) \<longrightarrow> renderMessage st (Some m) = (None, st)) \<and>
   (map_has (messages st) k \<longrightarrow> map_has (messages (handle rt tks e st)) k) \<and>
   (distinct (map fst (messages st)) \<longrightarrow> distinct (map fst (messages (handle rt tks e st))))"
proof -
  have "renderMessage (snd (renderMessage st (Some m))) (Some m) =
          (None, snd (renderMessage st (Some m)))"
    by (simp add: render_twice)
  then have "distinct (map fst (messages st)) \<Longrightarrow>
      length (filter (\<lambda>p. fst p = id_field m)
        (messages (snd (renderMessage (snd (renderMessage st (Some m))) (Some m))))) = 1"
    by (simp add: render_count)
  moreover have "map_has (messages st) (id_field m) \<Longrightarrow> renderMessage st (Some m) = (None, st)"
    by (simp add: renderMessage_def)
  ultimately show ?thesis
    by (simp add: render_twice handle_mono handle_distinct)
qed

theorem idempotent_admission_witness:
  "distinct (map fst (messages sample_session)) \<and>
   messages (snd (renderMessage (snd (renderMessage sample_session (Some sample_m1)))
                    (Some sample_m1))) = [(JStr ''m1'', sample_m1)] \<and>
   container (snd (renderMessage (snd (renderMessage sample_session (Some sample_m1)))
                    (Some sample_m1))) = [sample_m1] \<and>
   renderMessage (snd (renderMessage sample_session (Some sample_m1)))
       (Some (sample_m1\<lparr> message := JStr ''again'' \<rparr>)) =
     (None, snd (renderMessage sample_session (Some sample_m1))) \<and>
   map_has (messages (handle sample_runtime (sample_ticks 0) (SocketMessage ''yo'')
                        (snd (renderMessage sample_session (Some sample_m1))))) (JStr ''m1'')"
proof -
  let ?st = "snd (renderMessage sample_session (Some sample_m1))"
  have d: "distinct (map fst (messages sample_session))"
    by (simp add: sample_defs)
  have one: "messages ?st = [(JStr ''m1'', sample_m1)]" "container ?st = [sample_m1]"
    by (simp_all add: render_defs sample_defs sample_m1_def)
  have has: "map_has (messages ?st) (JStr ''m1'')"
    by (simp add: one map_has_def)
  note inst = idempotent_admission [of sample_session sample_m1
      "sample_m1\<lparr> message := JStr ''again'' \<rparr>" "JStr ''m1''" sample_runtime "sample_ticks 0"
      "SocketMessage ''yo''"]
  have again: "renderMessage ?st (Some (sample_m1\<lparr> message := JStr ''again'' \<rparr>)) = (None, ?st)"
    using inst by simp
  have same: "renderMessage ?st (Some sample_m1) = (None, ?st)"
    using idempotent_admission [of sample_session sample_m1 sample_m1] by simp
  have kept: "map_has (messages (handle sample_runtime (sample_ticks 0) (SocketMessage ''yo'') ?st))
                (JStr ''m1'')"
    using idempotent_admission [of ?st sample_m1 sample_m1 "JStr ''m1''" sample_runtime
        "sample_ticks 0" "SocketMessage ''yo''"] has by blast
  show ?thesis
    using d one again same kept by simp
qed

section \<open>Loading the history\<close>

lemma sample_history_normalized:
  "map_normalizeMessage sample_runtime (sample_ticks 0) 0
     [JObj 11 [(''id'', JStr ''m1''), (''senderId'', JStr ''bob''), (''content'', JStr ''third''),
                 (''timestamp'', JNum (Fin 300))],
        JObj 12 [(''id'', JStr ''m2''), (''senderId'', JStr ''ann''), (''content'', JStr ''first''),
                 (''timestamp'', JNum (Fin 100))],
        JObj 13 [(''id'', JStr ''m3''), (''senderId'', JStr ''bob''), (''content'', JStr ''second''),
                 (''timestamp'', JNum (Fin 200))]] = Inr [Some sample_m1, Some sample_m2, Some sample_m3]"
  by (simp add: normalize_defs sample_m1_def sample_m2_def sample_m3_def)

lemma sample_sorted: "sort_key time_of [sample_m1, sample_m2, sample_m3] = [sample_m2, sample_m3, sample_m1]"
  by (simp add: time_of_def sample_m1_def sample_m2_def sample_m3_def)

lemma sample_rendered:
  "forEach_renderMessage initial_state [sample_m2, sample_m3, sample_m1] =
     (None, initial_state\<lparr> messages := [(JStr ''m2'', sample_m2), (JStr ''m3'', sample_m3), (JStr ''m1'', sample_m1)],
                           container := [sample_m2, sample_m3, sample_m1] \<rparr>)"
  by (simp add: render_defs initial_state_def sample_m1_def sample_m2_def sample_m3_def)

text \<open>
  When the payloads normalize without an exception to messages whose timestamps are
  numbers (finite, or NaN, which the comparator takes for 0),
  \<^verbatim>\<open>renderInitialMessages\<close> admits them one after the other in the order of a stable
  sort by ascending timestamp: the order is sorted, and messages with equal timestamps
  keep their input order. The history with timestamps 300, 100, 200, loaded into the
  empty store, is iterated as 100, 200, 300.
\<close>

lemma chronological_bulk_load:
  assumes "map_normalizeMessage rt tks 0 raws = Inr mos"
    and "\<forall>m\<in>set (filter_Boolean mos). numeric_timestamp m"
  shows "renderInitialMessages rt tks st (JArr a raws) =
           forEach_renderMessage st (sort_key time_of (filter_Boolean mos)) \<and>
         sorted (map time_of (sort_key time_of (filter_Boolean mos))) \<and>
         (\<forall>t. filter (\<lambda>m. time_of m = t) (sort_key time_of (filter_Boolean mos)) =
               filter (\<lambda>m. time_of m = t) (filter_Boolean mos)) \<and>
         map (\<lambda>p. timestamp (snd p))
           (messages (snd (renderInitialMessages sample_runtime (sample_ticks 0) initial_state
                             sample_history))) =
           [JNum (Fin 100), JNum (Fin 200), JNum (Fin 300)]"
proof -
  have general: "renderInitialMessages rt tks st (JArr a raws) =
           forEach_renderMessage st (sort_key time_of (filter_Boolean mos))"
    using assms by (simp add: renderInitialMessages_def js_sort_sort_key)
  have num: "\<forall>m\<in>set (filter_Boolean [Some sample_m1, Some sample_m2, Some sample_m3]).
               numeric_timestamp m"
    by (simp add: filter_Boolean_def List.map_filter_def numeric_timestamp_def
        sample_m1_def sample_m2_def sample_m3_def)
  have "renderInitialMessages sample_runtime (sample_ticks 0) initial_state sample_history =
          forEach_renderMessage initial_state
            (sort_key time_of (filter_Boolean [Some sample_m1, Some sample_m2, Some sample_m3]))"
    using sample_history_normalized num
    by (simp add: renderInitialMessages_def js_sort_sort_key sample_history_def)
  also have "\<dots> = forEach_renderMessage initial_state [sample_m2, sample_m3, sample_m1]"
    using sample_sorted by (simp add: filter_Boolean_def List.map_filter_def)
  also note sample_rendered
  finally have example: "map (\<lambda>p. timestamp (snd p))
           (messages (snd (renderInitialMessages sample_runtime (sample_ticks 0) initial_state
                             sample_history))) =
           [JNum (Fin 100), JNum (Fin 200), JNum (Fin 300)]"
    by (simp add: sample_m1_def sample_m2_def sample_m3_def)
  show ?thesis
    using general example by (simp add: sort_key_stable)
qed

lemma chronological_bulk_load_example:
  "renderInitialMessages sample_runtime (sample_ticks 0) initial_state sample_history =
     (None, initial_state\<lparr> messages := [(JStr ''m2'', sample_m2), (JStr ''m3'', sample_m3),
                                         (JStr ''m1'', sample_m1)],
                           container := [sample_m2, sample_m3, sample_m1] \<rparr>)"
proof -
  have num: "\<forall>m\<in>set (filter_Boolean [Some sample_m1, Some sample_m2, Some sample_m3]).
               numeric_timestamp m"
    by (simp add: filter_Boolean_def List.map_filter_def numeric_timestamp_def
        sample_m1_def sample_m2_def sample_m3_def)
  have "renderInitialMessages sample_runtime (sample_ticks 0) initial_state sample_history =
          forEach_renderMessage initial_state
            (sort_key time_of (filter_Boolean [Some sample_m1, Some sample_m2, Some sample_m3]))"
    using chronological_bulk_load [OF sample_history_normalized num, of initial_state 10]
    by (simp add: sample_history_def)
  also have "\<dots> = forEach_renderMessage initial_state [sample_m2, sample_m3, sample_m1]"
    using sample_sorted by (simp add: filter_Boolean_def List.map_filter_def)
  also note sample_rendered
  finally show ?thesis .
qed

text \<open>
  C4. The history is claimed to be admitted in ascending order of the timestamps. A
  timestamp given under \<^verbatim>\<open>timestamp\<close> is passed through as it is (only
  \<^verbatim>\<open>createdAt\<close> is converted to a time), so for ISO date strings, which are not
  numbers, the comparator yields NaN for every pair and the sort changes nothing: the
  history of March, January, February is stored and rendered in that order, without an
  exception.
\<close>

theorem iso_history_not_sorted:
  assumes "string_to_num rt ''2024-03-01T00:00:00Z'' = NaN"
    and "string_to_num rt ''2024-01-01T00:00:00Z'' = NaN"
    and "string_to_num rt ''2024-02-01T00:00:00Z'' = NaN"
  shows "fst (renderInitialMessages rt tks initial_state sample_iso_history) = None \<and>
         map (\<lambda>p. timestamp (snd p))
           (messages (snd (renderInitialMessages rt tks initial_state sample_iso_history))) =
           [JStr ''2024-03-01T00:00:00Z'', JStr ''2024-01-01T00:00:00Z'',
            JStr ''2024-02-01T00:00:00Z''] \<and>
         map message
           (container (snd (renderInitialMessages rt tks initial_state sample_iso_history))) =
           [JStr ''third'', JStr ''first'', JStr ''second'']"
  using assms
  by (simp add: renderInitialMessages_def sample_iso_history_def normalize_defs
      filter_Boolean_def List.map_filter_def js_sort_def compare_timestamp_def to_number_def
      consistent_comparator_def sorts_equal_def render_defs initial_state_def)

theorem iso_history_not_sorted_witness:
  "map (\<lambda>p. id_field (snd p))
     (messages (snd (renderInitialMessages sample_runtime (sample_ticks 0) initial_state
                       sample_iso_history))) =
     [JStr ''m1'', JStr ''m2'', JStr ''m3''] \<and>
   map (\<lambda>p. timestamp (snd p))
     (messages (snd (renderInitialMessages sample_runtime (sample_ticks 0) initial_state
                       sample_iso_history))) =
     [JStr ''2024-03-01T00:00:00Z'', JStr ''2024-01-01T00:00:00Z'', JStr ''2024-02-01T00:00:00Z'']"
proof -
  have nan: "string_to_num sample_runtime ''2024-03-01T00:00:00Z'' = NaN"
    "string_to_num sample_runtime ''2024-01-01T00:00:00Z'' = NaN"
    "string_to_num sample_runtime ''2024-02-01T00:00:00Z'' = NaN"
    by (simp_all add: sample_runtime_def)
  have ids: "map (\<lambda>p. id_field (snd p))
     (messages (snd (renderInitialMessages sample_runtime (sample_ticks 0) initial_state
                       sample_iso_history))) =
     [JStr ''m1'', JStr ''m2'', JStr ''m3'']"
    by (simp add: renderInitialMessages_def sample_iso_history_def normalize_defs
      filter_Boolean_def List.map_filter_def js_sort_def compare_timestamp_def to_number_def
      consistent_comparator_def sorts_equal_def render_defs initial_state_def sample_runtime_def)
  show ?thesis
    using iso_history_not_sorted [OF nan, of "sample_ticks 0"] ids by simp
qed

section \<open>The session and the history response\<close>

text \<open>
  The handler of the history response does not look at the session: what it stores and
  renders is the same whatever the user name, the token and the WebSocket URL are when
  the response arrives.
\<close>

lemma history_ignores_session:
  "messages (history_responded rt tks resp (st\<lparr> username := u, token := t, wsUrl := w \<rparr>)) =
     messages (history_responded rt tks resp st) \<and>
   container (history_responded rt tks resp (st\<lparr> username := u, token := t, wsUrl := w \<rparr>)) =
     container (history_responded rt tks resp st)"
proof -
  let ?st = "st\<lparr> username := u, token := t, wsUrl := w \<rparr>"
  have same: "messages ?st = messages st" "container ?st = container st"
    by simp_all
  show ?thesis
    using renderInitialMessages_agree [OF same] same
    by (simp add: history_responded_def connect_after_history_store split: option.splits)
qed












section \<open>No local echo\<close>

lemma echo_normalized:
  "u \<noteq> [] \<Longrightarrow>
   normalizeMessage rt tk (JObj a [(''senderId'', JStr u), (''content'', JStr body)]) =
     Inr (Some \<lparr> id_field = JStr (u @ ''-'' @ num_to_string rt (now_id tk) @ ''-'' @ random36 tk),
                  userName = JStr u, message = JStr body, timestamp = JNum (Fin (now_ts tk)) \<rparr>)"
  by (simp add: normalize_defs)

text \<open>
  C7. \<^verbatim>\<open>sendMessage\<close> and the settling of its request leave the store and the
  rendered messages as they are. The only events whose handlers change either are an
  inbound socket frame and the history response; and an inbound frame that carries the
  sent content, normalized to an id not yet in the store, appends exactly that message.
\<close>

theorem no_local_echo:
  "messages (sendMessage st) = messages st \<and> container (sendMessage st) = container st \<and>
   messages (send_settled ok st) = messages st \<and> container (send_settled ok st) = container st \<and>
   (messages (handle rt tks e st) \<noteq> messages st \<or> container (handle rt tks e st) \<noteq> container st \<longrightarrow>
      (\<exists>d. e = SocketMessage d) \<or> (\<exists>r. e = HistoryResponded r)) \<and>
   (json_parse rt d = Some (JObj a [(''senderId'', JStr u), (''content'', JStr body)]) \<and> u \<noteq> [] \<and>
    \<not> map_has (messages st) (JStr (u @ ''-'' @ num_to_string rt (now_id (tks 0)) @ ''-'' @ random36 (tks 0))) \<longrightarrow>
      messages (handle rt tks (SocketMessage d) st) =
        messages st @
          [(JStr (u @ ''-'' @ num_to_string rt (now_id (tks 0)) @ ''-'' @ random36 (tks 0)),
            \<lparr> id_field = JStr (u @ ''-'' @ num_to_string rt (now_id (tks 0)) @ ''-'' @ random36 (tks 0)),
              userName = JStr u, message = JStr body, timestamp = JNum (Fin (now_ts (tks 0))) \<rparr>)])"
proof -
  have only: "messages (handle rt tks e st) \<noteq> messages st \<or> container (handle rt tks e st) \<noteq> container st \<longrightarrow>
      (\<exists>d. e = SocketMessage d) \<or> (\<exists>r. e = HistoryResponded r)"
    using handle_store [of rt tks e st] by blast
  have echo: "json_parse rt d = Some (JObj a [(''senderId'', JStr u), (''content'', JStr body)]) \<and> u \<noteq> [] \<and>
    \<not> map_has (messages st) (JStr (u @ ''-'' @ num_to_string rt (now_id (tks 0)) @ ''-'' @ random36 (tks 0))) \<longrightarrow>
      messages (handle rt tks (SocketMessage d) st) =
        messages st @
          [(JStr (u @ ''-'' @ num_to_string rt (now_id (tks 0)) @ ''-'' @ random36 (tks 0)),
            \<lparr> id_field = JStr (u @ ''-'' @ num_to_string rt (now_id (tks 0)) @ ''-'' @ random36 (tks 0)),
              userName = JStr u, message = JStr body, timestamp = JNum (Fin (now_ts (tks 0))) \<rparr>)]"
    by (simp add: ws_message_def echo_normalized renderMessage_messages map_set_absent)
  show ?thesis
    using only echo by (simp add: send_store)
qed

theorem no_local_echo_witness:
  "messages (sendMessage (sample_session\<lparr> messageInput := ''hello'' \<rparr>)) = [] \<and>
   requests (sendMessage (sample_session\<lparr> messageInput := ''hello'' \<rparr>)) =
     [PostJSON ''/addMessages'' [(''senderId'', JStr ''ann''), (''content'', JStr ''hello'')] (JStr ''tok'')] \<and>
   messages (run sample_runtime sample_ticks 0
      [InputTyped ''hello'', SendRequested, SendSettled True] sample_session) = [] \<and>
   messages (handle sample_runtime (sample_ticks 3)
      (SocketMessage ''{\"senderId\":\"ann\",\"content\":\"hello\"}'') sample_session) =
     [(JStr ''ann-1703-k30'',
       \<lparr> id_field = JStr ''ann-1703-k30'', userName = JStr ''ann'', message = JStr ''hello'',
         timestamp = JNum (Fin 1703) \<rparr>)]"
proof -
  have parsed: "json_parse sample_runtime ''{\"senderId\":\"ann\",\"content\":\"hello\"}'' =
      Some (JObj 1 [(''senderId'', JStr ''ann''), (''content'', JStr ''hello'')])"
    by (simp add: sample_runtime_def)
  have fresh: "\<not> map_has (messages sample_session)
      (JStr (''ann'' @ ''-'' @ num_to_string sample_runtime (now_id (sample_ticks 3 0)) @ ''-'' @
             random36 (sample_ticks 3 0)))"
    by (simp add: map_has_def sample_defs)
  note inst = no_local_echo [of "sample_session\<lparr> messageInput := ''hello'' \<rparr>" True sample_runtime
      "sample_ticks 3" "SocketMessage ''{\"senderId\":\"ann\",\"content\":\"hello\"}''"
      "''{\"senderId\":\"ann\",\"content\":\"hello\"}''" 1 "''ann''" "''hello''"]
  have sent: "messages (sendMessage (sample_session\<lparr> messageInput := ''hello'' \<rparr>)) = []"
    using inst by (simp add: sample_defs)
  have req: "requests (sendMessage (sample_session\<lparr> messageInput := ''hello'' \<rparr>)) =
     [PostJSON ''/addMessages'' [(''senderId'', JStr ''ann''), (''content'', JStr ''hello'')] (JStr ''tok'')]"
    by (simp add: sendMessage_def Let_def trim_def js_space_def sample_defs name_value_def)
  have settled: "messages (run sample_runtime sample_ticks 0
      [InputTyped ''hello'', SendRequested, SendSettled True] sample_session) = []"
    by (simp add: send_store sample_defs)
  have echoed: "messages (handle sample_runtime (sample_ticks 3)
      (SocketMessage ''{\"senderId\":\"ann\",\"content\":\"hello\"}'') sample_session) =
     [(JStr ''ann-1703-k30'',
       \<lparr> id_field = JStr ''ann-1703-k30'', userName = JStr ''ann'', message = JStr ''hello'',
         timestamp = JNum (Fin 1703) \<rparr>)]"
    using no_local_echo [of sample_session True sample_runtime
      "sample_ticks 3" "SocketMessage ''{\"senderId\":\"ann\",\"content\":\"hello\"}''"
      "''{\"senderId\":\"ann\",\"content\":\"hello\"}''" 1 "''ann''" "''hello''"] parsed fresh
    by (simp add: sample_defs)
  show ?thesis
    using sent req settled echoed by simp
qed


end
